theory Spec2Isabelle
  imports Main "HOL-Library.Sublist" "HOL-Library.Finite_Map"
begin

section \<open>Go strings\<close>

text \<open>
  A Go string is a sequence of bytes, here a \<^typ>\<open>string\<close> (a list of 8-bit characters).
  The functions of package \<open>strings\<close> that the S3 package calls are written out below.
\<close>

text \<open>
  \<open>strings.ToLower\<close> has two paths. A string made of ASCII bytes only is mapped byte by
  byte, \<open>'A'..'Z'\<close> going to \<open>'a'..'z'\<close>. Any other string is mapped rune by rune through
  the Unicode tables of the Go runtime; these tables are no part of this repository, so
  that path is a parameter \<open>ul\<close> of every function that lower-cases a string.
\<close>

type_synonym unicode_lower = "string \<Rightarrow> string"

definition isASCII :: "string \<Rightarrow> bool" where
  "isASCII s = list_all (\<lambda>c. (of_char c :: nat) < 128) s"

definition toLowerByte :: "char \<Rightarrow> char" where
  "toLowerByte c =
     (let n = (of_char c :: nat) in if 65 \<le> n \<and> n \<le> 90 then char_of (n + 32) else c)"

definition strings_ToLower :: "unicode_lower \<Rightarrow> string \<Rightarrow> string" where
  "strings_ToLower ul s = (if isASCII s then map toLowerByte s else ul s)"

text \<open>\<open>strings.HasPrefix(s, prefix)\<close>: \<open>len(s) >= len(prefix) && s[:len(prefix)] == prefix\<close>.\<close>

definition strings_HasPrefix :: "string \<Rightarrow> string \<Rightarrow> bool" where
  "strings_HasPrefix s p = (length p \<le> length s \<and> take (length p) s = p)"

text \<open>\<open>strings.Contains(s, substr)\<close>: whether \<open>substr\<close> occurs at some position of \<open>s\<close>.\<close>

fun strings_Contains :: "string \<Rightarrow> string \<Rightarrow> bool" where
  "strings_Contains [] sub = (sub = [])"
| "strings_Contains (c # cs) sub =
     (strings_HasPrefix (c # cs) sub \<or> strings_Contains cs sub)"

text \<open>\<open>strings.Join(elems, sep)\<close>.\<close>

fun strings_Join :: "string list \<Rightarrow> string \<Rightarrow> string" where
  "strings_Join [] sep = []"
| "strings_Join [x] sep = x"
| "strings_Join (x # y # ys) sep = x @ sep @ strings_Join (y # ys) sep"

section \<open>Go error values\<close>

text \<open>
  The six package-level error variables of the S3 package. Each is created once by
  \<open>errors.New\<close>, so each is one distinct pointer: comparing with \<open>==\<close> is comparing
  the constructor.
\<close>

datatype sentinel =
    ErrObjectNotFound
  | ErrBucketNotFound
  | ErrAccessDenied
  | ErrInvalidConfig
  | ErrEmptyKey
  | ErrEmptyBucketName

text \<open>
  An error value is one of the sentinels, an error that carries a message only (what
  \<open>fmt.Errorf\<close> builds from a format with no \<open>%w\<close>, and every foreign error that wraps
  nothing), an error with a message that wraps one error (\<open>fmt.Errorf\<close> with one \<open>%w\<close>,
  and the transport's operation errors), an error that wraps several (\<open>errors.Join\<close>),
  or one of the three typed errors of the transport's \<open>types\<close> package that the S3 package
  looks for; their argument is the text that \<open>Error()\<close> returns.
\<close>

datatype go_error =
    Sentinel sentinel
  | ErrorString string
  | WrapError string go_error
  | JoinError "go_error list"
  | NotFound string
  | NoSuchBucket string
  | NoSuchKey string

definition sentinel_text :: "sentinel \<Rightarrow> string" where
  "sentinel_text s =
     (case s of
        ErrObjectNotFound \<Rightarrow> ''object not found''
      | ErrBucketNotFound \<Rightarrow> ''bucket not found''
      | ErrAccessDenied \<Rightarrow> ''access denied''
      | ErrInvalidConfig \<Rightarrow> ''invalid configuration''
      | ErrEmptyKey \<Rightarrow> ''object key cannot be empty''
      | ErrEmptyBucketName \<Rightarrow> ''bucket name cannot be empty'')"

text \<open>The method \<open>Error()\<close>.\<close>

fun Error :: "go_error \<Rightarrow> string" where
  "Error (Sentinel s) = sentinel_text s"
| "Error (ErrorString m) = m"
| "Error (WrapError m e) = m"
| "Error (JoinError es) = strings_Join (map Error es) [CHR 0x0A]"
| "Error (NotFound m) = m"
| "Error (NoSuchBucket m) = m"
| "Error (NoSuchKey m) = m"

text \<open>
  \<open>fmt.Errorf\<close> with exactly one \<open>%w\<close> verb: \<open>pre\<close> is the formatted text before the verb
  and \<open>post\<close> the formatted text after it. The new error wraps \<open>e\<close>.
\<close>

definition fmt_Errorf_w :: "string \<Rightarrow> go_error \<Rightarrow> string \<Rightarrow> go_error" where
  "fmt_Errorf_w pre e post = WrapError (pre @ Error e @ post) e"

text \<open>
  \<open>errors.Is(err, target)\<close> for a target that is one of the sentinels: the tree of wrapped
  errors is walked depth first and each error is compared with the target.
\<close>

fun errors_Is :: "go_error \<Rightarrow> sentinel \<Rightarrow> bool" where
  "errors_Is (Sentinel s) t = (s = t)"
| "errors_Is (ErrorString m) t = False"
| "errors_Is (WrapError m e) t = errors_Is e t"
| "errors_Is (JoinError es) t = list_ex (\<lambda>e. errors_Is e t) es"
| "errors_Is (NotFound m) t = False"
| "errors_Is (NoSuchBucket m) t = False"
| "errors_Is (NoSuchKey m) t = False"

text \<open>
  \<open>errors.As(err, &target)\<close> for a target of one of the three typed transport errors; the
  code uses the boolean result only.
\<close>

datatype s3_error_type = TNotFound | TNoSuchBucket | TNoSuchKey

fun errors_As :: "go_error \<Rightarrow> s3_error_type \<Rightarrow> bool" where
  "errors_As (Sentinel s) t = False"
| "errors_As (ErrorString m) t = False"
| "errors_As (WrapError m e) t = errors_As e t"
| "errors_As (JoinError es) t = list_ex (\<lambda>e. errors_As e t) es"
| "errors_As (NotFound m) t = (t = TNotFound)"
| "errors_As (NoSuchBucket m) t = (t = TNoSuchBucket)"
| "errors_As (NoSuchKey m) t = (t = TNoSuchKey)"

text \<open>
  An error that comes from the transport holds none of this package's sentinels: the
  transport library does not know them.
\<close>

fun transport_error :: "go_error \<Rightarrow> bool" where
  "transport_error (Sentinel s) = False"
| "transport_error (ErrorString m) = True"
| "transport_error (WrapError m e) = transport_error e"
| "transport_error (JoinError es) = list_all transport_error es"
| "transport_error (NotFound m) = True"
| "transport_error (NoSuchBucket m) = True"
| "transport_error (NoSuchKey m) = True"

section \<open>The error taxonomy and validation\<close>

text \<open>\<open>WrapS3Error\<close>; \<open>nil\<close> is \<open>None\<close>.\<close>

definition WrapS3Error :: "go_error option \<Rightarrow> go_error option" where
  "WrapS3Error err =
     (case err of
        None \<Rightarrow> None
      | Some e \<Rightarrow>
          if errors_As e TNotFound
            then Some (fmt_Errorf_w [] (Sentinel ErrObjectNotFound) ('': '' @ Error e))
          else if errors_As e TNoSuchBucket
            then Some (fmt_Errorf_w [] (Sentinel ErrBucketNotFound) ('': '' @ Error e))
          else if errors_As e TNoSuchKey
            then Some (fmt_Errorf_w [] (Sentinel ErrObjectNotFound) ('': '' @ Error e))
          else Some e)"

definition ValidateKey :: "string \<Rightarrow> go_error option" where
  "ValidateKey key = (if key = [] then Some (Sentinel ErrEmptyKey) else None)"

section \<open>The configuration\<close>

definition ProviderAWS :: string where "ProviderAWS = ''aws''"
definition ProviderMinIO :: string where "ProviderMinIO = ''minio''"
definition ProviderDigitalOcean :: string where "ProviderDigitalOcean = ''digitalocean''"
definition ProviderCustom :: string where "ProviderCustom = ''custom''"

text \<open>The struct \<open>Config\<close>; the field \<open>UsePathStyle\<close> is a \<open>*bool\<close>, \<open>nil\<close> being \<open>None\<close>.\<close>

record Config =
  Provider :: string
  Region :: string
  AccessKeyID :: string
  SecretAccessKey :: string
  Endpoint :: string
  BucketName :: string
  UseSSL :: bool
  UsePathStyle :: "bool option"

text \<open>
  \<open>ValidateConfig\<close> takes a pointer, \<open>None\<close> being \<open>nil\<close>, and writes through it. The
  result is the configuration as the call leaves it, paired with the error returned.
\<close>

definition ValidateConfig :: "Config option \<Rightarrow> Config option \<times> go_error option" where
  "ValidateConfig p =
     (case p of
        None \<Rightarrow> (None, Some (Sentinel ErrInvalidConfig))
      | Some cfg \<Rightarrow>
          if BucketName cfg = [] then (Some cfg, Some (Sentinel ErrEmptyBucketName))
          else if AccessKeyID cfg = [] \<or> SecretAccessKey cfg = []
            then (Some cfg,
                  Some (fmt_Errorf_w [] (Sentinel ErrInvalidConfig)
                          '': access key ID and secret access key are required''))
          else if Region cfg = [] then (Some (cfg\<lparr>Region := ''us-east-1''\<rparr>), None)
          else (Some cfg, None))"

section \<open>Configuration resolution\<close>

text \<open>\<open>validateProvider\<close>: the closed set of provider names.\<close>

definition validateProvider :: "string \<Rightarrow> go_error option" where
  "validateProvider provider =
     (if provider = ProviderAWS \<or> provider = ProviderMinIO \<or>
         provider = ProviderDigitalOcean \<or> provider = ProviderCustom
      then None
      else Some (ErrorString (''invalid provider: '' @ provider @
             ''. Valid providers are: '' @ ProviderAWS @ '', '' @ ProviderMinIO @ '', '' @
             ProviderDigitalOcean @ '', '' @ ProviderCustom)))"

text \<open>\<open>detectProviderType\<close>: the provider guessed from the endpoint.\<close>

definition detectProviderType :: "unicode_lower \<Rightarrow> string \<Rightarrow> string" where
  "detectProviderType ul endpoint =
     (if endpoint = [] then ProviderAWS
      else
        let endpoint = strings_ToLower ul endpoint in
        if strings_Contains endpoint ''digitaloceanspaces.com'' then ProviderDigitalOcean
        else if strings_Contains endpoint ''localhost'' \<or>
                strings_Contains endpoint ''127.0.0.1'' \<or>
                strings_Contains endpoint '':9000'' \<or>
                strings_Contains endpoint ''minio''
          then ProviderMinIO
        else ProviderCustom)"

text \<open>
  \<open>autoConfigureForProvider\<close> writes through its pointer in seven steps; \<open>cfg1\<close> to
  \<open>cfg6\<close> are the configuration after each. The caller has checked that the pointer is
  not \<open>nil\<close>.
\<close>

definition autoConfigureForProvider :: "unicode_lower \<Rightarrow> Config \<Rightarrow> Config" where
  "autoConfigureForProvider ul cfg0 =
     (let providerType =
            (if Provider cfg0 = [] then detectProviderType ul (Endpoint cfg0)
             else Provider cfg0);
          cfg1 = (if Provider cfg0 = [] then cfg0\<lparr>Provider := providerType\<rparr> else cfg0);
          cfg2 =
            (if Region cfg1 = [] then
               (if providerType = ProviderAWS then cfg1\<lparr>Region := ''us-east-1''\<rparr>
                else if providerType = ProviderDigitalOcean then cfg1\<lparr>Region := ''nyc3''\<rparr>
                else cfg1\<lparr>Region := ''us-east-1''\<rparr>)
             else cfg1);
          cfg3 =
            (if providerType = ProviderMinIO \<and> Region cfg2 \<noteq> ''us-east-1''
             then cfg2\<lparr>Region := ''us-east-1''\<rparr> else cfg2);
          cfg4 =
            (if providerType = ProviderMinIO \<or> providerType = ProviderCustom then
               (if Endpoint cfg3 \<noteq> [] then
                  (if strings_HasPrefix (strings_ToLower ul (Endpoint cfg3)) ''http://''
                     then cfg3\<lparr>UseSSL := False\<rparr>
                   else if strings_HasPrefix (strings_ToLower ul (Endpoint cfg3)) ''https://''
                     then cfg3\<lparr>UseSSL := True\<rparr>
                   else cfg3)
                else cfg3)
             else cfg3);
          cfg5 =
            (if UsePathStyle cfg4 = None then
               (if providerType = ProviderAWS then cfg4\<lparr>UsePathStyle := Some False\<rparr>
                else if providerType = ProviderDigitalOcean
                  then cfg4\<lparr>UsePathStyle := Some False\<rparr>
                else cfg4\<lparr>UsePathStyle := Some True\<rparr>)
             else cfg4);
          cfg6 =
            (if providerType = ProviderMinIO \<or> providerType = ProviderCustom
             then cfg5\<lparr>UsePathStyle := Some True\<rparr> else cfg5)
      in cfg6)"

text \<open>
  \<open>ValidateMinIOConfig\<close>: the configuration as the call leaves it, the lines it logs, and
  the error returned.
\<close>

definition ValidateMinIOConfig :: "Config \<Rightarrow> Config \<times> string list \<times> go_error option" where
  "ValidateMinIOConfig cfg =
     (if Provider cfg \<noteq> ProviderMinIO then (cfg, [], None)
      else if Endpoint cfg = []
        then (cfg, [], Some (ErrorString ''MinIO requires an endpoint to be specified''))
      else if UsePathStyle cfg = Some False
        then (cfg\<lparr>UsePathStyle := Some True\<rparr>,
              [''WARNING: MinIO should use path-style addressing. Setting UsePathStyle to true''],
              None)
      else (cfg, [], None))"

section \<open>The client constructor\<close>

text \<open>
  What \<open>NewClient\<close> hands to the transport library: the region and the static credentials
  given to \<open>config.LoadDefaultConfig\<close>, and the two options set in the callback of
  \<open>s3.NewFromConfig\<close> (\<open>BaseEndpoint\<close> is a pointer; \<open>UsePathStyle\<close> starts as \<open>false\<close>).
\<close>

record S3Options =
  opt_Region :: string
  opt_AccessKeyID :: string
  opt_SecretAccessKey :: string
  BaseEndpoint :: "string option"
  opt_UsePathStyle :: bool

record Client =
  s3Client :: S3Options
  bucketName :: string
  config :: Config

text \<open>
  A call returns a value, returns an error, or panics (a \<open>nil\<close> pointer is dereferenced).
\<close>

datatype 'a outcome = Ok 'a | Err go_error | Panic

text \<open>
  \<open>config.LoadDefaultConfig\<close> belongs to the transport library: \<open>load\<close> takes the region
  and the two credentials and says whether loading fails.
\<close>

type_synonym loader = "string \<Rightarrow> string \<Rightarrow> string \<Rightarrow> go_error option"

text \<open>
  \<open>NewClient\<close>: the caller's configuration as the call leaves it (it is written through
  the pointer also when the call fails later), the lines logged, and the outcome. After
  \<open>ValidateConfig\<close> has returned no error the pointer is read; were it \<open>nil\<close> there, the
  call would panic.
\<close>

definition NewClient ::
  "unicode_lower \<Rightarrow> loader \<Rightarrow> Config option \<Rightarrow> Config option \<times> string list \<times> Client outcome"
where
  "NewClient ul load p =
     (case ValidateConfig p of
        (p1, verr) \<Rightarrow>
          (case verr of
             Some err \<Rightarrow> (p1, [], Err err)
           | None \<Rightarrow>
               (case p1 of
                  None \<Rightarrow> (None, [], Panic)
                | Some cfg1 \<Rightarrow>
                    (case (if Provider cfg1 \<noteq> [] then validateProvider (Provider cfg1)
                           else None) of
                       Some err \<Rightarrow> (Some cfg1, [], Err err)
                     | None \<Rightarrow>
                         (case ValidateMinIOConfig (autoConfigureForProvider ul cfg1) of
                            (cfg, logged, merr) \<Rightarrow>
                              (case merr of
                                 Some err \<Rightarrow> (Some cfg, logged, Err err)
                               | None \<Rightarrow>
                                   (case load (Region cfg) (AccessKeyID cfg)
                                           (SecretAccessKey cfg) of
                                      Some err \<Rightarrow>
                                        (Some cfg, logged,
                                         Err (fmt_Errorf_w ''failed to load AWS config: ''
                                                err []))
                                    | None \<Rightarrow>
                                        (Some cfg, logged,
                                         Ok \<lparr>s3Client =
                                               \<lparr>opt_Region = Region cfg,
                                                opt_AccessKeyID = AccessKeyID cfg,
                                                opt_SecretAccessKey = SecretAccessKey cfg,
                                                BaseEndpoint =
                                                  (if Endpoint cfg \<noteq> []
                                                   then Some (Endpoint cfg) else None),
                                                opt_UsePathStyle =
                                                  (if Provider cfg = ProviderMinIO \<or>
                                                      Provider cfg = ProviderCustom then True
                                                   else if UsePathStyle cfg = Some True
                                                     then True
                                                   else False)\<rparr>,
                                             bucketName = BucketName cfg,
                                             config = cfg\<rparr>))))))))"

section \<open>The object client\<close>

text \<open>
  The requests the client builds. \<open>aws.String\<close> returns a pointer to its argument, so a
  field it fills is \<open>Some\<close>; \<open>aws.ToString\<close> reads such a pointer, \<open>nil\<close> giving the empty
  string. A \<open>map[string]string\<close> is \<open>nil\<close> (\<open>None\<close>) or a finite map, and \<open>len\<close> of a
  \<open>nil\<close> map is 0. The body of an upload is the byte slice the reader is made from.
\<close>

definition aws_String :: "string \<Rightarrow> string option" where
  "aws_String s = Some s"

definition aws_ToString :: "string option \<Rightarrow> string" where
  "aws_ToString p = (case p of None \<Rightarrow> [] | Some s \<Rightarrow> s)"

type_synonym string_map = "(string, string) fmap option"

definition map_len :: "string_map \<Rightarrow> nat" where
  "map_len m = (case m of None \<Rightarrow> 0 | Some f \<Rightarrow> fcard (fmdom f))"

record UploadOptions =
  ContentType :: string
  Metadata :: string_map

record PutObjectInput =
  put_Bucket :: "string option"
  put_Key :: "string option"
  put_Body :: string
  put_ContentType :: "string option"
  put_Metadata :: string_map

record DeleteObjectInput =
  del_Bucket :: "string option"
  del_Key :: "string option"

record ObjectIdentifier =
  oid_Key :: "string option"

record types_Delete =
  Objects :: "ObjectIdentifier list"

record DeleteObjectsInput =
  dels_Bucket :: "string option"
  dels_Delete :: "types_Delete option"

text \<open>
  Of the answer to a bulk delete the client reads the list \<open>Errors\<close> only, and of each
  entry its \<open>Key\<close>.
\<close>

record types_Error =
  err_Key :: "string option"
  err_Code :: "string option"
  err_Message :: "string option"

record DeleteObjectsOutput =
  Errors :: "types_Error list"

text \<open>
  The transport handle \<open>c.s3Client\<close> is the collaborator: what it answers to a request is
  a parameter. Each operation below sends at most one request, so one answer per kind of
  request is all an operation can observe. The context argument of the operations is
  handed to the transport unread and is left out.
\<close>

record S3API =
  api_PutObject :: "PutObjectInput \<Rightarrow> go_error option"
  api_DeleteObject :: "DeleteObjectInput \<Rightarrow> go_error option"
  api_DeleteObjects :: "DeleteObjectsInput \<Rightarrow> go_error + DeleteObjectsOutput"

text \<open>The requests an operation has sent to the transport, in order.\<close>

datatype transport_call =
    CallPutObject PutObjectInput
  | CallDeleteObject DeleteObjectInput
  | CallDeleteObjects DeleteObjectsInput

text \<open>\<open>Upload\<close>; the options are a pointer, \<open>None\<close> being \<open>nil\<close>.\<close>

definition Upload ::
  "S3API \<Rightarrow> Client \<Rightarrow> string \<Rightarrow> string \<Rightarrow> UploadOptions option
     \<Rightarrow> go_error option \<times> transport_call list"
where
  "Upload api c key data opts0 =
     (case ValidateKey key of
        Some err \<Rightarrow> (Some err, [])
      | None \<Rightarrow>
          let opts = (case opts0 of None \<Rightarrow> \<lparr>ContentType = [], Metadata = None\<rparr>
                                  | Some given \<Rightarrow> given);
              input0 = \<lparr>put_Bucket = aws_String (bucketName c),
                        put_Key = aws_String key,
                        put_Body = data,
                        put_ContentType = None,
                        put_Metadata = None\<rparr>;
              input1 = (if ContentType opts \<noteq> []
                        then input0\<lparr>put_ContentType := aws_String (ContentType opts)\<rparr>
                        else input0);
              input2 = (if map_len (Metadata opts) > 0
                        then input1\<lparr>put_Metadata := Metadata opts\<rparr>
                        else input1)
          in (case api_PutObject api input2 of
                Some err \<Rightarrow>
                  (WrapS3Error (Some (fmt_Errorf_w
                      (''failed to upload object '' @ key @ '': '') err [])),
                   [CallPutObject input2])
              | None \<Rightarrow> (None, [CallPutObject input2])))"

text \<open>\<open>Delete\<close>.\<close>

definition Delete ::
  "S3API \<Rightarrow> Client \<Rightarrow> string \<Rightarrow> go_error option \<times> transport_call list"
where
  "Delete api c key =
     (case ValidateKey key of
        Some err \<Rightarrow> (Some err, [])
      | None \<Rightarrow>
          let input = \<lparr>del_Bucket = aws_String (bucketName c), del_Key = aws_String key\<rparr>
          in (case api_DeleteObject api input of
                Some err \<Rightarrow>
                  (WrapS3Error (Some (fmt_Errorf_w
                      (''failed to delete object '' @ key @ '': '') err [])),
                   [CallDeleteObject input])
              | None \<Rightarrow> (None, [CallDeleteObject input])))"

text \<open>
  \<open>DeleteMultiple\<close>. The two loops append one element per element read, so each is a
  \<open>map\<close>.
\<close>

definition DeleteMultiple ::
  "S3API \<Rightarrow> Client \<Rightarrow> string list \<Rightarrow> go_error option \<times> transport_call list"
where
  "DeleteMultiple api c keys =
     (if length keys = 0 then (None, [])
      else
        let objects = map (\<lambda>key. \<lparr>oid_Key = aws_String key\<rparr>) keys;
            input = \<lparr>dels_Bucket = aws_String (bucketName c),
                     dels_Delete = Some \<lparr>Objects = objects\<rparr>\<rparr>
        in (case api_DeleteObjects api input of
              Inl err \<Rightarrow>
                (WrapS3Error (Some (fmt_Errorf_w
                    ''failed to delete multiple objects: '' err [])),
                 [CallDeleteObjects input])
            | Inr result \<Rightarrow>
                if length (Errors result) > 0 then
                  (let errorKeys = map (\<lambda>deleteError. aws_ToString (err_Key deleteError))
                                       (Errors result)
                   in (Some (ErrorString (''failed to delete some objects: '' @
                               strings_Join errorKeys '', '')),
                       [CallDeleteObjects input]))
                else (None, [CallDeleteObjects input])))"

section \<open>Notions used to state the properties\<close>

text \<open>
  The kind check a caller applies to a returned error: \<open>err != nil && errors.Is(err, kind)\<close>.
\<close>

definition is_kind :: "go_error option \<Rightarrow> sentinel \<Rightarrow> bool" where
  "is_kind err k = (case err of None \<Rightarrow> False | Some e \<Rightarrow> errors_Is e k)"

text \<open>
  Provider detection as the specification words it, for comparison with
  \<open>detectProviderType\<close>: the endpoint as given is searched for each pattern.
\<close>

definition detectProviderType_spec :: "string \<Rightarrow> string" where
  "detectProviderType_spec endpoint =
     (if strings_Contains endpoint ''digitaloceanspaces.com'' then ProviderDigitalOcean
      else if endpoint = [] then ProviderAWS
      else if strings_Contains endpoint ''localhost'' \<or>
              strings_Contains endpoint ''127.0.0.1'' \<or>
              strings_Contains endpoint '':9000'' \<or>
              strings_Contains endpoint ''minio''
        then ProviderMinIO
      else ProviderCustom)"

section \<open>Facts about strings and errors\<close>

lemma strings_HasPrefix_prefix: "strings_HasPrefix s p \<longleftrightarrow> prefix p s"
  unfolding strings_HasPrefix_def
  by (metis append_eq_conv_conj prefix_def prefix_length_le take_is_prefix)

lemma strings_Contains_sublist: "strings_Contains s sub \<longleftrightarrow> sublist sub s"
  by (induction s) (simp_all add: strings_HasPrefix_prefix sublist_Cons_right)

lemma transport_error_not_Is: "transport_error e \<Longrightarrow> \<not> errors_Is e t"
  by (induction e) (auto simp: list_all_iff list_ex_iff)

lemma WrapS3Error_nil: "WrapS3Error None = None"
  by (simp add: WrapS3Error_def)

lemma WrapS3Error_wrapped_sentinel:
  "WrapS3Error (Some (WrapError m (Sentinel s))) = Some (WrapError m (Sentinel s))"
  by (simp add: WrapS3Error_def)

lemma WrapS3Error_result:
  "WrapS3Error (Some e) =
     Some (if errors_As e TNotFound
             then WrapError (''object not found: '' @ Error e) (Sentinel ErrObjectNotFound)
           else if errors_As e TNoSuchBucket
             then WrapError (''bucket not found: '' @ Error e) (Sentinel ErrBucketNotFound)
           else if errors_As e TNoSuchKey
             then WrapError (''object not found: '' @ Error e) (Sentinel ErrObjectNotFound)
           else e)"
  by (simp add: WrapS3Error_def fmt_Errorf_w_def sentinel_text_def)

lemma WrapS3Error_unrecognised:
  "\<not> errors_As e TNotFound \<Longrightarrow> \<not> errors_As e TNoSuchBucket \<Longrightarrow> \<not> errors_As e TNoSuchKey
     \<Longrightarrow> WrapS3Error (Some e) = Some e"
  by (simp add: WrapS3Error_def)

section \<open>Facts about validation and resolution\<close>

lemma ValidateKey_empty: "ValidateKey [] = Some (Sentinel ErrEmptyKey)"
  by (simp add: ValidateKey_def)

lemma ValidateKey_nonempty: "key \<noteq> [] \<Longrightarrow> ValidateKey key = None"
  by (simp add: ValidateKey_def)

lemma Upload_empty_key: "Upload api c [] data opts = (Some (Sentinel ErrEmptyKey), [])"
  by (simp add: Upload_def ValidateKey_def)

lemma Delete_empty_key: "Delete api c [] = (Some (Sentinel ErrEmptyKey), [])"
  by (simp add: Delete_def ValidateKey_def)

lemma NewClient_ValidateConfig_error:
  "ValidateConfig p = (p1, Some err) \<Longrightarrow> NewClient ul load p = (p1, [], Err err)"
  by (simp add: NewClient_def)

lemma NewClient_ValidateMinIOConfig_error:
  "ValidateConfig p = (Some cfg1, None) \<Longrightarrow>
   (if Provider cfg1 \<noteq> [] then validateProvider (Provider cfg1) else None) = None \<Longrightarrow>
   ValidateMinIOConfig (autoConfigureForProvider ul cfg1) = (cfg, logged, Some err) \<Longrightarrow>
   NewClient ul load p = (Some cfg, logged, Err err)"
  by (simp add: NewClient_def)

lemma NewClient_resolved:
  "ValidateConfig p = (Some cfg1, None) \<Longrightarrow>
   (if Provider cfg1 \<noteq> [] then validateProvider (Provider cfg1) else None) = None \<Longrightarrow>
   ValidateMinIOConfig (autoConfigureForProvider ul cfg1) = (cfg, logged, None) \<Longrightarrow>
   NewClient ul load p =
     (Some cfg, logged,
      (case load (Region cfg) (AccessKeyID cfg) (SecretAccessKey cfg) of
         Some err \<Rightarrow> Err (fmt_Errorf_w ''failed to load AWS config: '' err [])
       | None \<Rightarrow>
           Ok \<lparr>s3Client =
                 \<lparr>opt_Region = Region cfg,
                  opt_AccessKeyID = AccessKeyID cfg,
                  opt_SecretAccessKey = SecretAccessKey cfg,
                  BaseEndpoint = (if Endpoint cfg \<noteq> [] then Some (Endpoint cfg) else None),
                  opt_UsePathStyle =
                    (Provider cfg = ProviderMinIO \<or> Provider cfg = ProviderCustom \<or>
                     UsePathStyle cfg = Some True)\<rparr>,
               bucketName = BucketName cfg,
               config = cfg\<rparr>))"
  by (simp add: NewClient_def split: option.splits)

lemma ValidateConfig_result:
  "ValidateConfig (Some cfg) =
     (if BucketName cfg = [] then (Some cfg, Some (Sentinel ErrEmptyBucketName))
      else if AccessKeyID cfg = [] \<or> SecretAccessKey cfg = []
        then (Some cfg, Some (WrapError
               ''invalid configuration: access key ID and secret access key are required''
               (Sentinel ErrInvalidConfig)))
      else (Some (cfg\<lparr>Region := (if Region cfg = [] then ''us-east-1'' else Region cfg)\<rparr>), None))"
  by (simp add: ValidateConfig_def fmt_Errorf_w_def sentinel_text_def)

lemma ValidateMinIOConfig_no_endpoint:
  "Provider cfg = ProviderMinIO \<Longrightarrow> Endpoint cfg = [] \<Longrightarrow>
     ValidateMinIOConfig cfg = (cfg, [], Some (ErrorString ''MinIO requires an endpoint to be specified''))"
  by (simp add: ValidateMinIOConfig_def)

lemma validateProvider_minio: "validateProvider ProviderMinIO = None"
  by (simp add: validateProvider_def)

lemma autoConfigureForProvider_steps:
  assumes "providerType =
            (if Provider cfg0 = [] then detectProviderType ul (Endpoint cfg0)
             else Provider cfg0)"
    and "cfg1 = (if Provider cfg0 = [] then cfg0\<lparr>Provider := providerType\<rparr> else cfg0)"
    and "cfg2 =
            (if Region cfg1 = [] then
               (if providerType = ProviderAWS then cfg1\<lparr>Region := ''us-east-1''\<rparr>
                else if providerType = ProviderDigitalOcean then cfg1\<lparr>Region := ''nyc3''\<rparr>
                else cfg1\<lparr>Region := ''us-east-1''\<rparr>)
             else cfg1)"
    and "cfg3 =
            (if providerType = ProviderMinIO \<and> Region cfg2 \<noteq> ''us-east-1''
             then cfg2\<lparr>Region := ''us-east-1''\<rparr> else cfg2)"
    and "cfg4 =
            (if providerType = ProviderMinIO \<or> providerType = ProviderCustom then
               (if Endpoint cfg3 \<noteq> [] then
                  (if strings_HasPrefix (strings_ToLower ul (Endpoint cfg3)) ''http://''
                     then cfg3\<lparr>UseSSL := False\<rparr>
                   else if strings_HasPrefix (strings_ToLower ul (Endpoint cfg3)) ''https://''
                     then cfg3\<lparr>UseSSL := True\<rparr>
                   else cfg3)
                else cfg3)
             else cfg3)"
    and "cfg5 =
            (if UsePathStyle cfg4 = None then
               (if providerType = ProviderAWS then cfg4\<lparr>UsePathStyle := Some False\<rparr>
                else if providerType = ProviderDigitalOcean
                  then cfg4\<lparr>UsePathStyle := Some False\<rparr>
                else cfg4\<lparr>UsePathStyle := Some True\<rparr>)
             else cfg4)"
    and "cfg6 =
            (if providerType = ProviderMinIO \<or> providerType = ProviderCustom
             then cfg5\<lparr>UsePathStyle := Some True\<rparr> else cfg5)"
  shows "autoConfigureForProvider ul cfg0 = cfg6"
  unfolding assms autoConfigureForProvider_def Let_def by (rule refl)

lemma autoConfigure_minio_fields:
  assumes "Provider cfg = ProviderMinIO"
  shows "autoConfigureForProvider ul cfg =
       cfg\<lparr>Region := ''us-east-1'',
           UseSSL := (if Endpoint cfg = [] then UseSSL cfg
                      else if strings_HasPrefix (strings_ToLower ul (Endpoint cfg)) ''http://'' then False
                      else if strings_HasPrefix (strings_ToLower ul (Endpoint cfg)) ''https://'' then True
                      else UseSSL cfg),
           UsePathStyle := Some True\<rparr>"
proof (rule autoConfigureForProvider_steps [where providerType = ProviderMinIO and ?cfg1.0 = cfg
      and ?cfg2.0 = "cfg\<lparr>Region := (if Region cfg = [] then ''us-east-1'' else Region cfg)\<rparr>"
      and ?cfg3.0 = "cfg\<lparr>Region := ''us-east-1''\<rparr>"
      and ?cfg4.0 = "cfg\<lparr>Region := ''us-east-1'',
           UseSSL := (if Endpoint cfg = [] then UseSSL cfg
                      else if strings_HasPrefix (strings_ToLower ul (Endpoint cfg)) ''http://'' then False
                      else if strings_HasPrefix (strings_ToLower ul (Endpoint cfg)) ''https://'' then True
                      else UseSSL cfg)\<rparr>"
      and ?cfg5.0 = "cfg\<lparr>Region := ''us-east-1'',
           UseSSL := (if Endpoint cfg = [] then UseSSL cfg
                      else if strings_HasPrefix (strings_ToLower ul (Endpoint cfg)) ''http://'' then False
                      else if strings_HasPrefix (strings_ToLower ul (Endpoint cfg)) ''https://'' then True
                      else UseSSL cfg),
           UsePathStyle := (if UsePathStyle cfg = None then Some True else UsePathStyle cfg)\<rparr>"])
  show "ProviderMinIO = (if Provider cfg = [] then detectProviderType ul (Endpoint cfg) else Provider cfg)"
    using assms by (simp add: ProviderMinIO_def)
  show "cfg = (if Provider cfg = [] then cfg\<lparr>Provider := ProviderMinIO\<rparr> else cfg)"
    using assms by (simp add: ProviderMinIO_def)
qed (simp_all add: ProviderMinIO_def ProviderAWS_def ProviderDigitalOcean_def ProviderCustom_def)

lemma NewClient_minio_no_endpoint_fails:
  assumes "Provider cfg = ProviderMinIO" and "Endpoint cfg = []"
  shows "\<exists>e. snd (snd (NewClient ul load (Some cfg))) = Err e"
proof (cases "BucketName cfg = [] \<or> AccessKeyID cfg = [] \<or> SecretAccessKey cfg = []")
  case True
  then have "\<exists>err. ValidateConfig (Some cfg) = (Some cfg, Some err)"
    by (auto simp: ValidateConfig_result)
  then obtain err where "ValidateConfig (Some cfg) = (Some cfg, Some err)" by blast
  then have "NewClient ul load (Some cfg) = (Some cfg, [], Err err)"
    by (rule NewClient_ValidateConfig_error)
  then show ?thesis by simp
next
  case False
  define cfg1 where "cfg1 = cfg\<lparr>Region := (if Region cfg = [] then ''us-east-1'' else Region cfg)\<rparr>"
  have v: "ValidateConfig (Some cfg) = (Some cfg1, None)"
    using False by (simp add: ValidateConfig_result cfg1_def)
  have m: "Provider cfg1 = ProviderMinIO" "Endpoint cfg1 = []" "ProviderMinIO \<noteq> []"
    using assms by (simp_all add: cfg1_def ProviderMinIO_def)
  have vp: "(if Provider cfg1 \<noteq> [] then validateProvider (Provider cfg1) else None) = None"
    using m by (simp add: validateProvider_minio)
  have p: "Provider (autoConfigureForProvider ul cfg1) = ProviderMinIO"
    using m by (simp add: autoConfigure_minio_fields)
  have e: "Endpoint (autoConfigureForProvider ul cfg1) = []"
    using m by (simp add: autoConfigure_minio_fields)
  have "NewClient ul load (Some cfg) =
      (Some (autoConfigureForProvider ul cfg1), [],
       Err (ErrorString ''MinIO requires an endpoint to be specified''))"
    by (rule NewClient_ValidateMinIOConfig_error
          [OF v vp ValidateMinIOConfig_no_endpoint [OF p e]])
  then show ?thesis by simp
qed

text \<open>
  \<open>NewClient\<close> never dereferences a \<open>nil\<close> configuration: \<open>ValidateConfig\<close> returns an
  error for it first.
\<close>

lemma NewClient_validateProvider_error:
  "ValidateConfig p = (Some cfg1, None) \<Longrightarrow>
   (if Provider cfg1 \<noteq> [] then validateProvider (Provider cfg1) else None) = Some err \<Longrightarrow>
   NewClient ul load p = (Some cfg1, [], Err err)"
  by (simp add: NewClient_def)

lemma ValidateConfig_outcomes:
  "(\<exists>p1 err. ValidateConfig p = (p1, Some err)) \<or> (\<exists>cfg1. ValidateConfig p = (Some cfg1, None))"
  by (cases p) (simp_all add: ValidateConfig_def)

lemma NewClient_never_panics: "snd (snd (NewClient ul load p)) \<noteq> Panic"
proof -
  consider (invalid) p1 err where "ValidateConfig p = (p1, Some err)"
    | (valid) cfg1 where "ValidateConfig p = (Some cfg1, None)"
    using ValidateConfig_outcomes [of p] by blast
  then show ?thesis
  proof cases
    case invalid
    then show ?thesis by (simp add: NewClient_ValidateConfig_error)
  next
    case valid
    show ?thesis
    proof (cases "if Provider cfg1 \<noteq> [] then validateProvider (Provider cfg1) else None")
      case (Some err)
      from NewClient_validateProvider_error [OF valid Some] show ?thesis by simp
    next
      case None
      obtain cfg logged merr where
        m: "ValidateMinIOConfig (autoConfigureForProvider ul cfg1) = (cfg, logged, merr)"
        by (metis prod_cases3)
      show ?thesis
      proof (cases merr)
        case (Some err)
        from NewClient_ValidateMinIOConfig_error [OF valid None m [unfolded Some]]
        show ?thesis by simp
      next
        case no_error: None
        from NewClient_resolved [OF valid None m [unfolded no_error]]
        show ?thesis by (simp split: option.splits)
      qed
    qed
  qed
qed

text \<open>
  For every MinIO configuration that passes validation, \<open>NewClient\<close> leaves the region
  \<open>us-east-1\<close> and path-style addressing, whatever the caller gave, and logs nothing: the
  warning of \<open>ValidateMinIOConfig\<close> cannot fire after \<open>autoConfigureForProvider\<close>.
\<close>

lemma NewClient_minio_forced:
  assumes "Provider cfg = ProviderMinIO" and "Endpoint cfg \<noteq> []"
    and "BucketName cfg \<noteq> []" and "AccessKeyID cfg \<noteq> []" and "SecretAccessKey cfg \<noteq> []"
  shows "\<exists>resolved outcome.
           NewClient ul load (Some cfg) = (Some resolved, [], outcome) \<and>
           Provider resolved = ProviderMinIO \<and> Region resolved = ''us-east-1'' \<and>
           UsePathStyle resolved = Some True"
proof -
  define cfg1 where "cfg1 = cfg\<lparr>Region := (if Region cfg = [] then ''us-east-1'' else Region cfg)\<rparr>"
  define resolved where "resolved = autoConfigureForProvider ul cfg1"
  have v: "ValidateConfig (Some cfg) = (Some cfg1, None)"
    using assms by (simp add: ValidateConfig_result cfg1_def)
  have m: "Provider cfg1 = ProviderMinIO" "Endpoint cfg1 \<noteq> []" "ProviderMinIO \<noteq> []"
    using assms by (simp_all add: cfg1_def ProviderMinIO_def)
  have vp: "(if Provider cfg1 \<noteq> [] then validateProvider (Provider cfg1) else None) = None"
    using m by (simp add: validateProvider_minio)
  have r: "Provider resolved = ProviderMinIO" "Region resolved = ''us-east-1''"
      "UsePathStyle resolved = Some True" "Endpoint resolved \<noteq> []"
    using m by (simp_all add: resolved_def autoConfigure_minio_fields)
  have vm: "ValidateMinIOConfig (autoConfigureForProvider ul cfg1) = (resolved, [], None)"
    using r by (simp add: ValidateMinIOConfig_def resolved_def [symmetric])
  show ?thesis
    using NewClient_resolved [OF v vp vm, of load] r by blast
qed

lemma ToLower_digitalocean_endpoint:
  "strings_ToLower ul ''https://nyc3.digitaloceanspaces.com'' = ''https://nyc3.digitaloceanspaces.com''"
  by code_simp

lemma ToLower_localhost_endpoint:
  "strings_ToLower ul ''http://localhost:9000'' = ''http://localhost:9000''"
  by code_simp

lemma detectProviderType_digitalocean_endpoint:
  "detectProviderType ul ''https://nyc3.digitaloceanspaces.com'' = ''digitalocean''"
  by code_simp

lemma autoConfigure_digitalocean_endpoint:
  "autoConfigureForProvider ul \<lparr>Provider = [], Region = region, AccessKeyID = ''id'',
          SecretAccessKey = ''secret'', Endpoint = ''https://nyc3.digitaloceanspaces.com'',
          BucketName = ''b'', UseSSL = True, UsePathStyle = None\<rparr>
     = \<lparr>Provider = ''digitalocean'', Region = (if region = [] then ''nyc3'' else region),
          AccessKeyID = ''id'',
          SecretAccessKey = ''secret'', Endpoint = ''https://nyc3.digitaloceanspaces.com'',
          BucketName = ''b'', UseSSL = True, UsePathStyle = Some False\<rparr>"
  by (rule autoConfigureForProvider_steps [where providerType = "''digitalocean''"
        and ?cfg1.0 = "\<lparr>Provider = ''digitalocean'', Region = region, AccessKeyID = ''id'',
          SecretAccessKey = ''secret'', Endpoint = ''https://nyc3.digitaloceanspaces.com'',
          BucketName = ''b'', UseSSL = True, UsePathStyle = None\<rparr>"
        and ?cfg2.0 = "\<lparr>Provider = ''digitalocean'', Region = (if region = [] then ''nyc3'' else region), AccessKeyID = ''id'',
          SecretAccessKey = ''secret'', Endpoint = ''https://nyc3.digitaloceanspaces.com'',
          BucketName = ''b'', UseSSL = True, UsePathStyle = None\<rparr>"
        and ?cfg3.0 = "\<lparr>Provider = ''digitalocean'', Region = (if region = [] then ''nyc3'' else region), AccessKeyID = ''id'',
          SecretAccessKey = ''secret'', Endpoint = ''https://nyc3.digitaloceanspaces.com'',
          BucketName = ''b'', UseSSL = True, UsePathStyle = None\<rparr>"
        and ?cfg4.0 = "\<lparr>Provider = ''digitalocean'', Region = (if region = [] then ''nyc3'' else region), AccessKeyID = ''id'',
          SecretAccessKey = ''secret'', Endpoint = ''https://nyc3.digitaloceanspaces.com'',
          BucketName = ''b'', UseSSL = True, UsePathStyle = None\<rparr>"
        and ?cfg5.0 = "\<lparr>Provider = ''digitalocean'', Region = (if region = [] then ''nyc3'' else region), AccessKeyID = ''id'',
          SecretAccessKey = ''secret'', Endpoint = ''https://nyc3.digitaloceanspaces.com'',
          BucketName = ''b'', UseSSL = True, UsePathStyle = Some False\<rparr>"])
     (simp_all add: detectProviderType_digitalocean_endpoint ProviderMinIO_def ProviderAWS_def
        ProviderDigitalOcean_def ProviderCustom_def)

section \<open>The error taxonomy\<close>

text \<open>
  Claim C7. \<open>WrapS3Error\<close> maps \<open>nil\<close> to \<open>nil\<close>, and it is idempotent: applied to its own
  result it returns that result unchanged, for every error (and for \<open>nil\<close>).

  A classified error wraps the sentinel only (the original error enters the message as
  text), so none of the three transport types is found in it again.
\<close>

theorem WrapS3Error_idempotent:
  "WrapS3Error None = None \<and> WrapS3Error (WrapS3Error err) = WrapS3Error err"
proof
  show "WrapS3Error None = None" by (rule WrapS3Error_nil)
next
  show "WrapS3Error (WrapS3Error err) = WrapS3Error err"
  proof (cases err)
    case None
    then show ?thesis by (simp add: WrapS3Error_nil)
  next
    case (Some e)
    show ?thesis
    proof (cases "errors_As e TNotFound \<or> errors_As e TNoSuchBucket \<or> errors_As e TNoSuchKey")
      case True
      then have "\<exists>m s. WrapS3Error (Some e) = Some (WrapError m (Sentinel s))"
        by (auto simp: WrapS3Error_result)
      then obtain m s where "WrapS3Error (Some e) = Some (WrapError m (Sentinel s))"
        by blast
      then show ?thesis unfolding Some by (simp add: WrapS3Error_wrapped_sentinel)
    next
      case False
      then have "WrapS3Error (Some e) = Some e" by (simp add: WrapS3Error_unrecognised)
      then show ?thesis unfolding Some by simp
    qed
  qed
qed

section \<open>Upload\<close>

text \<open>
  Claim C10. For every key and payload, \<open>Upload\<close> with a \<open>nil\<close> options pointer does what
  \<open>Upload\<close> with \<open>&UploadOptions{}\<close> does: the same request goes to the transport (or none,
  for an empty key) and the same error comes back.
\<close>

theorem Upload_nil_options:
  "Upload api c key data None =
   Upload api c key data (Some \<lparr>ContentType = [], Metadata = None\<rparr>)"
  by (simp add: Upload_def split: option.splits)

section \<open>Validation of the configuration\<close>

text \<open>
  Claim C6. \<open>ValidateConfig\<close> fails with \<open>ErrInvalidConfig\<close> for a \<open>nil\<close> configuration;
  otherwise with \<open>ErrEmptyBucketName\<close> when the bucket name is empty; otherwise with an
  error of the invalid-configuration kind when the access key ID or the secret key is
  empty; otherwise it succeeds. On each failure the configuration is left as it was. On
  success the configuration differs from the given one in the region only, and only
  when the region was empty: it is then \<open>us-east-1\<close>.
\<close>

theorem ValidateConfig_cases:
  "ValidateConfig None = (None, Some (Sentinel ErrInvalidConfig))
   \<and> (BucketName cfg = [] \<longrightarrow>
        ValidateConfig (Some cfg) = (Some cfg, Some (Sentinel ErrEmptyBucketName)))
   \<and> (BucketName cfg \<noteq> [] \<and> (AccessKeyID cfg = [] \<or> SecretAccessKey cfg = []) \<longrightarrow>
        (\<exists>e. ValidateConfig (Some cfg) = (Some cfg, Some e) \<and> errors_Is e ErrInvalidConfig))
   \<and> (BucketName cfg \<noteq> [] \<and> AccessKeyID cfg \<noteq> [] \<and> SecretAccessKey cfg \<noteq> [] \<longrightarrow>
        ValidateConfig (Some cfg) =
          (Some (cfg\<lparr>Region := (if Region cfg = [] then ''us-east-1'' else Region cfg)\<rparr>), None))"
  by (simp add: ValidateConfig_def fmt_Errorf_w_def)

text \<open>
  The four cases of a present configuration, each at a concrete configuration: empty
  bucket, empty secret key, empty region, and a region given by the caller.
\<close>

theorem ValidateConfig_cases_witness:
  "ValidateConfig (Some \<lparr>Provider = [], Region = [], AccessKeyID = ''id'', SecretAccessKey = ''secret'',
       Endpoint = [], BucketName = [], UseSSL = True, UsePathStyle = None\<rparr>)
     = (Some \<lparr>Provider = [], Region = [], AccessKeyID = ''id'', SecretAccessKey = ''secret'',
       Endpoint = [], BucketName = [], UseSSL = True, UsePathStyle = None\<rparr>, Some (Sentinel ErrEmptyBucketName))
   \<and> is_kind (snd (ValidateConfig (Some \<lparr>Provider = [], Region = [], AccessKeyID = ''id'', SecretAccessKey = [],
       Endpoint = [], BucketName = ''b'', UseSSL = True, UsePathStyle = None\<rparr>))) ErrInvalidConfig
   \<and> ValidateConfig (Some \<lparr>Provider = [], Region = [], AccessKeyID = ''id'', SecretAccessKey = ''secret'',
       Endpoint = [], BucketName = ''b'', UseSSL = True, UsePathStyle = None\<rparr>)
     = (Some \<lparr>Provider = [], Region = ''us-east-1'', AccessKeyID = ''id'', SecretAccessKey = ''secret'',
       Endpoint = [], BucketName = ''b'', UseSSL = True, UsePathStyle = None\<rparr>, None)
   \<and> ValidateConfig (Some \<lparr>Provider = [], Region = ''eu-west-1'', AccessKeyID = ''id'', SecretAccessKey = ''secret'',
       Endpoint = [], BucketName = ''b'', UseSSL = True, UsePathStyle = None\<rparr>)
     = (Some \<lparr>Provider = [], Region = ''eu-west-1'', AccessKeyID = ''id'', SecretAccessKey = ''secret'',
       Endpoint = [], BucketName = ''b'', UseSSL = True, UsePathStyle = None\<rparr>, None)"
  using
    ValidateConfig_cases [of "\<lparr>Provider = [], Region = [], AccessKeyID = ''id'', SecretAccessKey = ''secret'',
       Endpoint = [], BucketName = [], UseSSL = True, UsePathStyle = None\<rparr>"]
    ValidateConfig_cases [of "\<lparr>Provider = [], Region = [], AccessKeyID = ''id'', SecretAccessKey = [],
       Endpoint = [], BucketName = ''b'', UseSSL = True, UsePathStyle = None\<rparr>"]
    ValidateConfig_cases [of "\<lparr>Provider = [], Region = [], AccessKeyID = ''id'', SecretAccessKey = ''secret'',
       Endpoint = [], BucketName = ''b'', UseSSL = True, UsePathStyle = None\<rparr>"]
    ValidateConfig_cases [of "\<lparr>Provider = [], Region = ''eu-west-1'', AccessKeyID = ''id'', SecretAccessKey = ''secret'',
       Endpoint = [], BucketName = ''b'', UseSSL = True, UsePathStyle = None\<rparr>"]
  by (auto simp: is_kind_def)

section \<open>The kinds of error that are produced\<close>

text \<open>
  Claim C9 says that every domain error kind is produced by the error taxonomy, and in
  particular that \<open>WrapS3Error\<close> returns an error of the access-denied kind for some
  transport error. That does not hold: \<open>WrapS3Error\<close> looks for the three typed errors
  \<open>NotFound\<close>, \<open>NoSuchBucket\<close> and \<open>NoSuchKey\<close> only and returns every other error as it
  is, so an error of the access-denied kind comes back only when one went in, and the
  transport holds none.
\<close>

theorem WrapS3Error_never_access_denied:
  "\<not> (\<exists>e. transport_error e \<and> is_kind (WrapS3Error (Some e)) ErrAccessDenied)"
  by (simp add: WrapS3Error_result is_kind_def transport_error_not_Is)

text \<open>
  Claim C9, amended. Every domain error kind except access-denied is produced:
  object-not-found and bucket-not-found by \<open>WrapS3Error\<close> from a transport error,
  invalid-configuration and empty-bucket-name by \<open>ValidateConfig\<close>, empty-key by
  \<open>ValidateKey\<close>. For every transport error, what \<open>WrapS3Error\<close> returns is of the
  object-not-found kind, of the bucket-not-found kind, or the error itself unchanged, and
  it is never of the access-denied, invalid-configuration, empty-key or
  empty-bucket-name kind.
\<close>

theorem domain_kinds_produced:
  "(\<exists>e. transport_error e \<and> is_kind (WrapS3Error (Some e)) ErrObjectNotFound)
   \<and> (\<exists>e. transport_error e \<and> is_kind (WrapS3Error (Some e)) ErrBucketNotFound)
   \<and> (\<exists>p. is_kind (snd (ValidateConfig p)) ErrInvalidConfig)
   \<and> (\<exists>p. is_kind (snd (ValidateConfig p)) ErrEmptyBucketName)
   \<and> (\<exists>k. is_kind (ValidateKey k) ErrEmptyKey)
   \<and> (\<forall>e. transport_error e \<longrightarrow>
         \<not> is_kind (WrapS3Error (Some e)) ErrAccessDenied
         \<and> \<not> is_kind (WrapS3Error (Some e)) ErrInvalidConfig
         \<and> \<not> is_kind (WrapS3Error (Some e)) ErrEmptyKey
         \<and> \<not> is_kind (WrapS3Error (Some e)) ErrEmptyBucketName
         \<and> (is_kind (WrapS3Error (Some e)) ErrObjectNotFound
              \<or> is_kind (WrapS3Error (Some e)) ErrBucketNotFound
              \<or> WrapS3Error (Some e) = Some e))"
proof (intro conjI allI impI)
  have "transport_error (NoSuchKey ''k'')" by simp
  moreover have "is_kind (WrapS3Error (Some (NoSuchKey ''k''))) ErrObjectNotFound"
    by (simp add: WrapS3Error_result is_kind_def)
  ultimately show "\<exists>e. transport_error e \<and> is_kind (WrapS3Error (Some e)) ErrObjectNotFound"
    by blast
next
  have "transport_error (NoSuchBucket ''b'')" by simp
  moreover have "is_kind (WrapS3Error (Some (NoSuchBucket ''b''))) ErrBucketNotFound"
    by (simp add: WrapS3Error_result is_kind_def)
  ultimately show "\<exists>e. transport_error e \<and> is_kind (WrapS3Error (Some e)) ErrBucketNotFound"
    by blast
next
  have "is_kind (snd (ValidateConfig None)) ErrInvalidConfig"
    by (simp add: ValidateConfig_def is_kind_def)
  then show "\<exists>p. is_kind (snd (ValidateConfig p)) ErrInvalidConfig" ..
next
  have "is_kind (snd (ValidateConfig (Some \<lparr>Provider = [], Region = [], AccessKeyID = [],
          SecretAccessKey = [], Endpoint = [], BucketName = [], UseSSL = False,
          UsePathStyle = None\<rparr>))) ErrEmptyBucketName"
    by (simp add: ValidateConfig_def is_kind_def)
  then show "\<exists>p. is_kind (snd (ValidateConfig p)) ErrEmptyBucketName" ..
next
  have "is_kind (ValidateKey []) ErrEmptyKey"
    by (simp add: ValidateKey_def is_kind_def)
  then show "\<exists>k. is_kind (ValidateKey k) ErrEmptyKey" ..
next
  fix e assume "transport_error e"
  then show "\<not> is_kind (WrapS3Error (Some e)) ErrAccessDenied"
    by (simp add: WrapS3Error_result is_kind_def transport_error_not_Is)
next
  fix e assume "transport_error e"
  then show "\<not> is_kind (WrapS3Error (Some e)) ErrInvalidConfig"
    by (simp add: WrapS3Error_result is_kind_def transport_error_not_Is)
next
  fix e assume "transport_error e"
  then show "\<not> is_kind (WrapS3Error (Some e)) ErrEmptyKey"
    by (simp add: WrapS3Error_result is_kind_def transport_error_not_Is)
next
  fix e assume "transport_error e"
  then show "\<not> is_kind (WrapS3Error (Some e)) ErrEmptyBucketName"
    by (simp add: WrapS3Error_result is_kind_def transport_error_not_Is)
next
  fix e
  show "is_kind (WrapS3Error (Some e)) ErrObjectNotFound
          \<or> is_kind (WrapS3Error (Some e)) ErrBucketNotFound
          \<or> WrapS3Error (Some e) = Some e"
    by (simp add: WrapS3Error_result is_kind_def)
qed

text \<open>
  An access-denied answer of the transport, as an operation error that wraps an API
  error, passes through \<open>WrapS3Error\<close> unchanged and is not of the access-denied kind.
\<close>

theorem domain_kinds_produced_witness:
  "transport_error (WrapError ''operation error S3: HeadObject'' (ErrorString ''api error AccessDenied: Access Denied''))
   \<and> \<not> is_kind (WrapS3Error (Some (WrapError ''operation error S3: HeadObject'' (ErrorString ''api error AccessDenied: Access Denied'')))) ErrAccessDenied
   \<and> WrapS3Error (Some (WrapError ''operation error S3: HeadObject'' (ErrorString ''api error AccessDenied: Access Denied'')))
       = Some (WrapError ''operation error S3: HeadObject'' (ErrorString ''api error AccessDenied: Access Denied''))"
proof -
  let ?e = "WrapError ''operation error S3: HeadObject'' (ErrorString ''api error AccessDenied: Access Denied'')"
  have t: "transport_error ?e" by simp
  from domain_kinds_produced have
    "\<forall>e. transport_error e \<longrightarrow> \<not> is_kind (WrapS3Error (Some e)) ErrAccessDenied" by blast
  with t have "\<not> is_kind (WrapS3Error (Some ?e)) ErrAccessDenied" by blast
  moreover have "WrapS3Error (Some ?e) = Some ?e" by (simp add: WrapS3Error_def)
  ultimately show ?thesis using t by blast
qed

section \<open>Provider detection\<close>

text \<open>
  Claim C4 reads the four detection rules on the endpoint as given. That does not hold:
  \<open>detectProviderType\<close> lower-cases the endpoint before it looks for a pattern. The
  endpoint \<open>http://LOCALHOST:8080\<close> contains none of the patterns, so the claim makes it
  \<open>custom\<close>; the code makes it \<open>minio\<close>.
\<close>

theorem detectProviderType_upper_case_counterexample:
  "detectProviderType id ''http://LOCALHOST:8080'' = ProviderMinIO
   \<and> detectProviderType_spec ''http://LOCALHOST:8080'' = ProviderCustom"
  by code_simp

text \<open>
  Claim C4, amended. With \<open>Provider\<close> unset, the provider detected from the endpoint is:
  \<open>aws\<close> for the empty endpoint; otherwise \<open>digitalocean\<close> when the lower-cased
  endpoint (\<open>strings.ToLower\<close>) contains \<open>digitaloceanspaces.com\<close>; otherwise \<open>minio\<close> when
  the lower-cased endpoint contains \<open>localhost\<close>, \<open>127.0.0.1\<close>, \<open>:9000\<close> or \<open>minio\<close>;
  otherwise \<open>custom\<close>. So the patterns match in any letter case, and the digitalocean
  rule comes before the minio patterns. For an ASCII endpoint this is the rule of the
  specification applied to the endpoint with \<open>A..Z\<close> replaced by \<open>a..z\<close>.
\<close>

theorem detectProviderType_lowercased:
  "(endpoint = [] \<longrightarrow> detectProviderType ul endpoint = ProviderAWS)
   \<and> (endpoint \<noteq> [] \<and> sublist ''digitaloceanspaces.com'' (strings_ToLower ul endpoint) \<longrightarrow>
        detectProviderType ul endpoint = ProviderDigitalOcean)
   \<and> (endpoint \<noteq> [] \<and> \<not> sublist ''digitaloceanspaces.com'' (strings_ToLower ul endpoint) \<and>
        (sublist ''localhost'' (strings_ToLower ul endpoint) \<or>
         sublist ''127.0.0.1'' (strings_ToLower ul endpoint) \<or>
         sublist '':9000'' (strings_ToLower ul endpoint) \<or>
         sublist ''minio'' (strings_ToLower ul endpoint)) \<longrightarrow>
        detectProviderType ul endpoint = ProviderMinIO)
   \<and> (endpoint \<noteq> [] \<and> \<not> sublist ''digitaloceanspaces.com'' (strings_ToLower ul endpoint) \<and>
        \<not> sublist ''localhost'' (strings_ToLower ul endpoint) \<and>
        \<not> sublist ''127.0.0.1'' (strings_ToLower ul endpoint) \<and>
        \<not> sublist '':9000'' (strings_ToLower ul endpoint) \<and>
        \<not> sublist ''minio'' (strings_ToLower ul endpoint) \<longrightarrow>
        detectProviderType ul endpoint = ProviderCustom)
   \<and> (isASCII endpoint \<longrightarrow>
        detectProviderType ul endpoint = detectProviderType_spec (map toLowerByte endpoint))"
proof -
  have "detectProviderType ul endpoint = detectProviderType_spec (map toLowerByte endpoint)"
    if "isASCII endpoint"
  proof (cases "endpoint = []")
    case True
    then show ?thesis by (simp add: detectProviderType_def detectProviderType_spec_def)
  next
    case False
    with that show ?thesis
      by (simp add: detectProviderType_def detectProviderType_spec_def strings_ToLower_def
            Let_def del: strings_Contains.simps)
  qed
  then show ?thesis
    by (simp add: detectProviderType_def Let_def strings_Contains_sublist)
qed

text \<open>
  One endpoint for each of the four rules, the middle two with upper-case letters.
\<close>

theorem detectProviderType_lowercased_witness:
  "detectProviderType id [] = ProviderAWS
   \<and> detectProviderType id ''https://NYC3.DigitalOceanSpaces.com'' = ProviderDigitalOcean
   \<and> detectProviderType id ''http://MinIO.internal:8080'' = ProviderMinIO
   \<and> detectProviderType id ''https://s3.example.com'' = ProviderCustom
   \<and> detectProviderType id ''http://MinIO.internal:8080'' = detectProviderType_spec ''http://minio.internal:8080''"
proof -
  have a: "sublist ''digitaloceanspaces.com'' (strings_ToLower id ''https://NYC3.DigitalOceanSpaces.com'')"
    unfolding strings_Contains_sublist [symmetric] by code_simp
  have b: "\<not> sublist ''digitaloceanspaces.com'' (strings_ToLower id ''http://MinIO.internal:8080'')"
          "sublist ''minio'' (strings_ToLower id ''http://MinIO.internal:8080'')"
    unfolding strings_Contains_sublist [symmetric] by code_simp+
  have c: "\<not> sublist ''digitaloceanspaces.com'' (strings_ToLower id ''https://s3.example.com'')"
          "\<not> sublist ''localhost'' (strings_ToLower id ''https://s3.example.com'')"
          "\<not> sublist ''127.0.0.1'' (strings_ToLower id ''https://s3.example.com'')"
          "\<not> sublist '':9000'' (strings_ToLower id ''https://s3.example.com'')"
          "\<not> sublist ''minio'' (strings_ToLower id ''https://s3.example.com'')"
    unfolding strings_Contains_sublist [symmetric] by code_simp+
  have d: "isASCII ''http://MinIO.internal:8080''"
          "map toLowerByte ''http://MinIO.internal:8080'' = ''http://minio.internal:8080''"
    by code_simp+
  have w1: "detectProviderType id [] = ProviderAWS"
    using detectProviderType_lowercased [of "[]" id] by simp
  have w2: "detectProviderType id ''https://NYC3.DigitalOceanSpaces.com'' = ProviderDigitalOcean"
    using detectProviderType_lowercased [of "''https://NYC3.DigitalOceanSpaces.com''" id] a
    by simp
  have w3: "detectProviderType id ''http://MinIO.internal:8080'' = ProviderMinIO"
    using detectProviderType_lowercased [of "''http://MinIO.internal:8080''" id] b
    by simp
  have w4: "detectProviderType id ''https://s3.example.com'' = ProviderCustom"
    using detectProviderType_lowercased [of "''https://s3.example.com''" id] c
    by simp
  have w5: "detectProviderType id ''http://MinIO.internal:8080'' =
              detectProviderType_spec ''http://minio.internal:8080''"
    using detectProviderType_lowercased [of "''http://MinIO.internal:8080''" id] d
    by simp
  from w1 w2 w3 w4 w5 show ?thesis by blast
qed

section \<open>Resolution in the client constructor\<close>

text \<open>
  Claim C1. For the configuration with no provider, no region, the endpoint
  \<open>https://nyc3.digitaloceanspaces.com\<close>, the bucket \<open>b\<close> and credentials, the claim
  expects \<open>NewClient\<close> to resolve the provider to \<open>digitalocean\<close>, the region to \<open>nyc3\<close> and
  the addressing style to virtual-hosted.

  The code resolves the provider and the addressing style so, but not the region:
  \<open>ValidateConfig\<close> runs first and writes \<open>us-east-1\<close> into the empty region, so
  \<open>autoConfigureForProvider\<close> never sees an empty region in \<open>NewClient\<close> and its DigitalOcean
  default \<open>nyc3\<close> is not applied. Called by itself on the same configuration,
  \<open>autoConfigureForProvider\<close> gives \<open>nyc3\<close>.
\<close>

theorem NewClient_digitalocean_region:
  "fst (NewClient ul load (Some \<lparr>Provider = [], Region = [], AccessKeyID = ''id'',
          SecretAccessKey = ''secret'', Endpoint = ''https://nyc3.digitaloceanspaces.com'',
          BucketName = ''b'', UseSSL = True, UsePathStyle = None\<rparr>))
     = Some \<lparr>Provider = ''digitalocean'', Region = ''us-east-1'', AccessKeyID = ''id'',
          SecretAccessKey = ''secret'', Endpoint = ''https://nyc3.digitaloceanspaces.com'',
          BucketName = ''b'', UseSSL = True, UsePathStyle = Some False\<rparr>
   \<and> autoConfigureForProvider ul \<lparr>Provider = [], Region = [], AccessKeyID = ''id'',
          SecretAccessKey = ''secret'', Endpoint = ''https://nyc3.digitaloceanspaces.com'',
          BucketName = ''b'', UseSSL = True, UsePathStyle = None\<rparr>
     = \<lparr>Provider = ''digitalocean'', Region = ''nyc3'', AccessKeyID = ''id'',
          SecretAccessKey = ''secret'', Endpoint = ''https://nyc3.digitaloceanspaces.com'',
          BucketName = ''b'', UseSSL = True, UsePathStyle = Some False\<rparr>"
proof
  let ?given = "\<lparr>Provider = [], Region = [], AccessKeyID = ''id'',
          SecretAccessKey = ''secret'', Endpoint = ''https://nyc3.digitaloceanspaces.com'',
          BucketName = ''b'', UseSSL = True, UsePathStyle = None\<rparr>"
  let ?validated = "\<lparr>Provider = [], Region = ''us-east-1'', AccessKeyID = ''id'',
          SecretAccessKey = ''secret'', Endpoint = ''https://nyc3.digitaloceanspaces.com'',
          BucketName = ''b'', UseSSL = True, UsePathStyle = None\<rparr>"
  let ?resolved = "\<lparr>Provider = ''digitalocean'', Region = ''us-east-1'', AccessKeyID = ''id'',
          SecretAccessKey = ''secret'', Endpoint = ''https://nyc3.digitaloceanspaces.com'',
          BucketName = ''b'', UseSSL = True, UsePathStyle = Some False\<rparr>"
  have v: "ValidateConfig (Some ?given) = (Some ?validated, None)"
    by (simp add: ValidateConfig_result)
  have vp: "(if Provider ?validated \<noteq> [] then validateProvider (Provider ?validated) else None) = None"
    by simp
  have a: "autoConfigureForProvider ul ?validated = ?resolved"
    by (simp add: autoConfigure_digitalocean_endpoint)
  have m: "ValidateMinIOConfig (autoConfigureForProvider ul ?validated) = (?resolved, [], None)"
    unfolding a by (simp add: ValidateMinIOConfig_def ProviderMinIO_def)
  show "fst (NewClient ul load (Some ?given)) = Some ?resolved"
    unfolding NewClient_resolved [OF v vp m] by simp
next
  show "autoConfigureForProvider ul \<lparr>Provider = [], Region = [], AccessKeyID = ''id'',
          SecretAccessKey = ''secret'', Endpoint = ''https://nyc3.digitaloceanspaces.com'',
          BucketName = ''b'', UseSSL = True, UsePathStyle = None\<rparr>
     = \<lparr>Provider = ''digitalocean'', Region = ''nyc3'', AccessKeyID = ''id'',
          SecretAccessKey = ''secret'', Endpoint = ''https://nyc3.digitaloceanspaces.com'',
          BucketName = ''b'', UseSSL = True, UsePathStyle = Some False\<rparr>"
    by (simp add: autoConfigure_digitalocean_endpoint)
qed

text \<open>
  Claim C2. With \<open>Provider = minio\<close> and an empty endpoint the claim expects resolution to
  fail with an error of the invalid-configuration kind.

  \<open>NewClient\<close> does fail on every such configuration (\<open>NewClient_minio_no_endpoint_fails\<close>
  above). With bucket and credentials given, the error is the one \<open>ValidateMinIOConfig\<close>
  builds with \<open>fmt.Errorf\<close> from a format without \<open>%w\<close>: it wraps nothing, and
  \<open>errors.Is\<close> does not find \<open>ErrInvalidConfig\<close> in it.
\<close>

theorem NewClient_minio_no_endpoint_error:
  "NewClient ul load (Some \<lparr>Provider = ''minio'', Region = [], AccessKeyID = ''id'',
          SecretAccessKey = ''secret'', Endpoint = [], BucketName = ''b'', UseSSL = True,
          UsePathStyle = None\<rparr>)
     = (Some \<lparr>Provider = ''minio'', Region = ''us-east-1'', AccessKeyID = ''id'',
          SecretAccessKey = ''secret'', Endpoint = [], BucketName = ''b'', UseSSL = True,
          UsePathStyle = Some True\<rparr>, [],
        Err (ErrorString ''MinIO requires an endpoint to be specified''))
   \<and> \<not> errors_Is (ErrorString ''MinIO requires an endpoint to be specified'') ErrInvalidConfig"
proof
  let ?given = "\<lparr>Provider = ''minio'', Region = [], AccessKeyID = ''id'',
          SecretAccessKey = ''secret'', Endpoint = [], BucketName = ''b'', UseSSL = True,
          UsePathStyle = None\<rparr>"
  let ?validated = "\<lparr>Provider = ''minio'', Region = ''us-east-1'', AccessKeyID = ''id'',
          SecretAccessKey = ''secret'', Endpoint = [], BucketName = ''b'', UseSSL = True,
          UsePathStyle = None\<rparr>"
  let ?resolved = "\<lparr>Provider = ''minio'', Region = ''us-east-1'', AccessKeyID = ''id'',
          SecretAccessKey = ''secret'', Endpoint = [], BucketName = ''b'', UseSSL = True,
          UsePathStyle = Some True\<rparr>"
  have v: "ValidateConfig (Some ?given) = (Some ?validated, None)"
    by (simp add: ValidateConfig_result)
  have vp: "(if Provider ?validated \<noteq> [] then validateProvider (Provider ?validated) else None) = None"
    using validateProvider_minio by (simp add: ProviderMinIO_def)
  have a: "autoConfigureForProvider ul ?validated = ?resolved"
    by (simp add: autoConfigure_minio_fields ProviderMinIO_def)
  have m: "ValidateMinIOConfig (autoConfigureForProvider ul ?validated) =
             (?resolved, [], Some (ErrorString ''MinIO requires an endpoint to be specified''))"
    unfolding a by (simp add: ValidateMinIOConfig_def ProviderMinIO_def)
  show "NewClient ul load (Some ?given) =
          (Some ?resolved, [], Err (ErrorString ''MinIO requires an endpoint to be specified''))"
    by (rule NewClient_ValidateMinIOConfig_error [OF v vp m])
next
  show "\<not> errors_Is (ErrorString ''MinIO requires an endpoint to be specified'') ErrInvalidConfig"
    by simp
qed

text \<open>
  Claim C5. For the configuration with \<open>Provider = minio\<close>, the endpoint
  \<open>http://localhost:9000\<close> and the region \<open>eu-west-1\<close>, credentials and bucket given,
  \<open>NewClient\<close> resolves to provider \<open>minio\<close>, region \<open>us-east-1\<close>, \<open>UseSSL = false\<close> and
  \<open>UsePathStyle = true\<close>, whatever \<open>UseSSL\<close> and \<open>UsePathStyle\<close> the caller gave. Nothing is
  logged, the resolved configuration is what the call leaves behind, and the call fails
  only if the transport library fails to load its configuration; otherwise the client
  holds the resolved configuration and a transport handle with path-style addressing.
\<close>

theorem NewClient_minio_scenario:
  "accessKey \<noteq> [] \<and> secretKey \<noteq> [] \<and> bucket \<noteq> [] \<longrightarrow>
   NewClient ul load (Some \<lparr>Provider = ''minio'', Region = ''eu-west-1'', AccessKeyID = accessKey,
          SecretAccessKey = secretKey, Endpoint = ''http://localhost:9000'',
          BucketName = bucket, UseSSL = useSSL, UsePathStyle = usePathStyle\<rparr>)
     = (Some \<lparr>Provider = ''minio'', Region = ''us-east-1'', AccessKeyID = accessKey,
          SecretAccessKey = secretKey, Endpoint = ''http://localhost:9000'',
          BucketName = bucket, UseSSL = False, UsePathStyle = Some True\<rparr>,
        [],
        (case load ''us-east-1'' accessKey secretKey of
           Some err \<Rightarrow> Err (fmt_Errorf_w ''failed to load AWS config: '' err [])
         | None \<Rightarrow>
             Ok \<lparr>s3Client = \<lparr>opt_Region = ''us-east-1'', opt_AccessKeyID = accessKey,
                    opt_SecretAccessKey = secretKey,
                    BaseEndpoint = Some ''http://localhost:9000'', opt_UsePathStyle = True\<rparr>,
                 bucketName = bucket,
                 config = \<lparr>Provider = ''minio'', Region = ''us-east-1'', AccessKeyID = accessKey,
                    SecretAccessKey = secretKey, Endpoint = ''http://localhost:9000'',
                    BucketName = bucket, UseSSL = False, UsePathStyle = Some True\<rparr>\<rparr>))"
proof
  let ?given = "\<lparr>Provider = ''minio'', Region = ''eu-west-1'', AccessKeyID = accessKey,
          SecretAccessKey = secretKey, Endpoint = ''http://localhost:9000'',
          BucketName = bucket, UseSSL = useSSL, UsePathStyle = usePathStyle\<rparr>"
  let ?resolved = "\<lparr>Provider = ''minio'', Region = ''us-east-1'', AccessKeyID = accessKey,
          SecretAccessKey = secretKey, Endpoint = ''http://localhost:9000'',
          BucketName = bucket, UseSSL = False, UsePathStyle = Some True\<rparr>"
  assume "accessKey \<noteq> [] \<and> secretKey \<noteq> [] \<and> bucket \<noteq> []"
  then have v: "ValidateConfig (Some ?given) = (Some ?given, None)"
    by (simp add: ValidateConfig_result)
  have vp: "(if Provider ?given \<noteq> [] then validateProvider (Provider ?given) else None) = None"
    using validateProvider_minio by (simp add: ProviderMinIO_def)
  have a: "autoConfigureForProvider ul ?given = ?resolved"
    by (simp add: autoConfigure_minio_fields ProviderMinIO_def ToLower_localhost_endpoint
          strings_HasPrefix_def)
  have m: "ValidateMinIOConfig (autoConfigureForProvider ul ?given) = (?resolved, [], None)"
    unfolding a by (simp add: ValidateMinIOConfig_def ProviderMinIO_def)
  show "NewClient ul load (Some ?given)
     = (Some ?resolved, [],
        (case load ''us-east-1'' accessKey secretKey of
           Some err \<Rightarrow> Err (fmt_Errorf_w ''failed to load AWS config: '' err [])
         | None \<Rightarrow>
             Ok \<lparr>s3Client = \<lparr>opt_Region = ''us-east-1'', opt_AccessKeyID = accessKey,
                    opt_SecretAccessKey = secretKey,
                    BaseEndpoint = Some ''http://localhost:9000'', opt_UsePathStyle = True\<rparr>,
                 bucketName = bucket,
                 config = ?resolved\<rparr>))"
    unfolding NewClient_resolved [OF v vp m] by (simp add: ProviderMinIO_def split: option.splits)
qed

text \<open>
  The scenario with the credentials and bucket of the package's own MinIO example, the
  caller asking for TLS and for virtual-hosted addressing.
\<close>

theorem NewClient_minio_scenario_witness:
  "NewClient id (\<lambda>region accessKey secretKey. None)
     (Some \<lparr>Provider = ''minio'', Region = ''eu-west-1'', AccessKeyID = ''minioadmin'',
          SecretAccessKey = ''minioadmin'', Endpoint = ''http://localhost:9000'',
          BucketName = ''test-bucket'', UseSSL = True, UsePathStyle = Some False\<rparr>)
     = (Some \<lparr>Provider = ''minio'', Region = ''us-east-1'', AccessKeyID = ''minioadmin'',
          SecretAccessKey = ''minioadmin'', Endpoint = ''http://localhost:9000'',
          BucketName = ''test-bucket'', UseSSL = False, UsePathStyle = Some True\<rparr>,
        [],
        Ok \<lparr>s3Client = \<lparr>opt_Region = ''us-east-1'', opt_AccessKeyID = ''minioadmin'',
                    opt_SecretAccessKey = ''minioadmin'',
                    BaseEndpoint = Some ''http://localhost:9000'', opt_UsePathStyle = True\<rparr>,
                 bucketName = ''test-bucket'',
                 config = \<lparr>Provider = ''minio'', Region = ''us-east-1'', AccessKeyID = ''minioadmin'',
                    SecretAccessKey = ''minioadmin'', Endpoint = ''http://localhost:9000'',
                    BucketName = ''test-bucket'', UseSSL = False, UsePathStyle = Some True\<rparr>\<rparr>)"
  using NewClient_minio_scenario [of "''minioadmin''" "''minioadmin''" "''test-bucket''" id
          "\<lambda>region accessKey secretKey. None" True "Some False"]
  by simp

section \<open>Bulk delete\<close>

text \<open>
  Claim C3. \<open>ValidateKey\<close> fails with \<open>ErrEmptyKey\<close> on the empty key and succeeds on every
  other (\<open>ValidateKey_empty\<close>, \<open>ValidateKey_nonempty\<close> above), and \<open>Upload\<close> and \<open>Delete\<close>
  return that error for the empty key before any request is sent (\<open>Upload_empty_key\<close>,
  \<open>Delete_empty_key\<close>). The claim expects the same of \<open>DeleteMultiple\<close> for a key list
  that holds an empty string.

  \<open>DeleteMultiple\<close> does not call \<open>ValidateKey\<close>. For the key list that holds the empty key
  only, it sends the bulk-delete request with that key, whatever the transport; and when
  the transport reports no failure it returns \<open>nil\<close>, not \<open>ErrEmptyKey\<close>.
\<close>

theorem DeleteMultiple_empty_key_sent:
  "snd (DeleteMultiple api c [[]]) =
     [CallDeleteObjects \<lparr>dels_Bucket = Some (bucketName c),
        dels_Delete = Some \<lparr>Objects = [\<lparr>oid_Key = Some []\<rparr>]\<rparr>\<rparr>]
   \<and> DeleteMultiple (api\<lparr>api_DeleteObjects := \<lambda>input. Inr \<lparr>Errors = []\<rparr>\<rparr>) c [[]] =
       (None, [CallDeleteObjects \<lparr>dels_Bucket = Some (bucketName c),
          dels_Delete = Some \<lparr>Objects = [\<lparr>oid_Key = Some []\<rparr>]\<rparr>\<rparr>])
   \<and> \<not> is_kind (fst (DeleteMultiple (api\<lparr>api_DeleteObjects := \<lambda>input. Inr \<lparr>Errors = []\<rparr>\<rparr>) c [[]]))
         ErrEmptyKey"
  by (simp add: DeleteMultiple_def aws_String_def is_kind_def Let_def split: sum.splits)

text \<open>
  Claim C8. \<open>DeleteMultiple\<close> on the empty key list returns \<open>nil\<close> and sends nothing. On a
  non-empty key list, when the transport answers the bulk-delete request with a
  non-empty list of per-key failures, \<open>DeleteMultiple\<close> returns an error whose message
  is \<open>failed to delete some objects: \<close> followed by the keys of the reported failures,
  in the order reported, joined by a comma and a space; one request was sent, for
  exactly the given keys.
\<close>

theorem DeleteMultiple_aggregate:
  "DeleteMultiple api c [] = (None, [])
   \<and> (keys \<noteq> [] \<and>
       api_DeleteObjects api
         \<lparr>dels_Bucket = Some (bucketName c),
          dels_Delete = Some \<lparr>Objects = map (\<lambda>key. \<lparr>oid_Key = Some key\<rparr>) keys\<rparr>\<rparr> = Inr result \<and>
       Errors result \<noteq> [] \<longrightarrow>
       DeleteMultiple api c keys =
         (Some (ErrorString (''failed to delete some objects: '' @
            strings_Join (map (\<lambda>failure. aws_ToString (err_Key failure)) (Errors result)) '', '')),
          [CallDeleteObjects
             \<lparr>dels_Bucket = Some (bucketName c),
              dels_Delete = Some \<lparr>Objects = map (\<lambda>key. \<lparr>oid_Key = Some key\<rparr>) keys\<rparr>\<rparr>]))"
  by (simp add: DeleteMultiple_def aws_String_def Let_def)

text \<open>
  The keys \<open>a\<close>, \<open>b\<close>, \<open>c\<close> with the transport reporting that \<open>b\<close> failed: the message
  names \<open>b\<close> and nothing else.
\<close>

theorem DeleteMultiple_aggregate_witness:
  "DeleteMultiple
     \<lparr>api_PutObject = \<lambda>input. None, api_DeleteObject = \<lambda>input. None,
      api_DeleteObjects = \<lambda>input. Inr \<lparr>Errors = [\<lparr>err_Key = Some ''b'', err_Code = Some ''AccessDenied'', err_Message = Some ''Access Denied''\<rparr>]\<rparr>\<rparr>
     \<lparr>s3Client = \<lparr>opt_Region = ''us-east-1'', opt_AccessKeyID = ''id'', opt_SecretAccessKey = ''secret'', BaseEndpoint = None, opt_UsePathStyle = False\<rparr>, bucketName = ''bucket'',
       config = \<lparr>Provider = ''aws'', Region = ''us-east-1'', AccessKeyID = ''id'', SecretAccessKey = ''secret'', Endpoint = [], BucketName = ''bucket'', UseSSL = True, UsePathStyle = Some False\<rparr>\<rparr> [''a'', ''b'', ''c'']
   = (Some (ErrorString ''failed to delete some objects: b''),
      [CallDeleteObjects \<lparr>dels_Bucket = Some ''bucket'',
          dels_Delete = Some \<lparr>Objects = [\<lparr>oid_Key = Some ''a''\<rparr>, \<lparr>oid_Key = Some ''b''\<rparr>, \<lparr>oid_Key = Some ''c''\<rparr>]\<rparr>\<rparr>])"
  using DeleteMultiple_aggregate [of "\<lparr>api_PutObject = \<lambda>input. None, api_DeleteObject = \<lambda>input. None,
      api_DeleteObjects = \<lambda>input. Inr \<lparr>Errors = [\<lparr>err_Key = Some ''b'', err_Code = Some ''AccessDenied'', err_Message = Some ''Access Denied''\<rparr>]\<rparr>\<rparr>" "\<lparr>s3Client = \<lparr>opt_Region = ''us-east-1'', opt_AccessKeyID = ''id'', opt_SecretAccessKey = ''secret'', BaseEndpoint = None, opt_UsePathStyle = False\<rparr>, bucketName = ''bucket'',
       config = \<lparr>Provider = ''aws'', Region = ''us-east-1'', AccessKeyID = ''id'', SecretAccessKey = ''secret'', Endpoint = [], BucketName = ''bucket'', UseSSL = True, UsePathStyle = Some False\<rparr>\<rparr>" "[''a'', ''b'', ''c'']"
       "\<lparr>Errors = [\<lparr>err_Key = Some ''b'', err_Code = Some ''AccessDenied'', err_Message = Some ''Access Denied''\<rparr>]\<rparr>"]
  by (simp add: aws_ToString_def)

end
